theory Spec2Isabelle
  imports Main "HOL-Library.Word" "HOL-Library.Sublist"
begin

section \<open>The VL53L5cx sensor facade (VL53L5cx.cpp)\<close>

text \<open>
  The class \<^verbatim>\<open>VL53L5cx\<close> wraps the vendor's low-level driver (ULD) of a
  multi-zone time-of-flight sensor; \<^verbatim>\<open>VL53L5cxAutonomous\<close> derives from it.
  The member functions are embedded as functions on the object's fields, returning the
  updated object.  The vendor driver, the platform's reset routine and the debugger are
  not part of the translation unit: the driver is a parameter of every operation, and
  each call into it is recorded in a ghost field of the object, in program order.
\<close>

subsection \<open>Machine integers and enumerations\<close>

type_synonym u8 = "8 word"
type_synonym u16 = "16 word"
type_synonym u32 = "32 word"

text \<open>The enumerations of the class header, as the source names their values.\<close>

datatype resolution_t = RESOLUTION_4X4 | RESOLUTION_8X8

datatype target_order_t = TARGET_ORDER_STRONGEST | TARGET_ORDER_CLOSEST

text \<open>
  The vendor's macros that the source passes to the driver.  Their numeric values are
  defined in the vendor's header; they are kept symbolic.  Of the two ranging modes the
  source selects the autonomous one; the continuous one is the mode its comment sets
  against it.
\<close>

datatype vl_resolution = VL53L5CX_RESOLUTION_4X4 | VL53L5CX_RESOLUTION_8X8

datatype vl_target_order = VL53L5CX_TARGET_ORDER_STRONGEST | VL53L5CX_TARGET_ORDER_CLOSEST

datatype vl_ranging_mode = VL53L5CX_RANGING_MODE_CONTINUOUS | VL53L5CX_RANGING_MODE_AUTONOMOUS

subsection \<open>The vendor's data\<close>

text \<open>
  \<^verbatim>\<open>VL53L5CX_Configuration\<close> (the field \<^verbatim>\<open>_dev\<close>): the source reads and
  writes \<^verbatim>\<open>platform.address\<close> and \<^verbatim>\<open>streamcount\<close>; everything else in
  the structure belongs to the driver and is the opaque component \<open>uld_state\<close>.
\<close>

record 'x VL53L5CX_Configuration =
  platform_address :: u8
  streamcount :: u8
  uld_state :: 'x

text \<open>
  \<^verbatim>\<open>VL53L5CX_ResultsData\<close> (the field \<^verbatim>\<open>_results\<close>): the seven arrays the
  accessors index.  The arrays' element types are declared in the vendor's header; an
  element is represented by the integer it holds, and an array by the list of its
  elements.
\<close>

record VL53L5CX_ResultsData =
  target_status :: "int list"
  distance_mm :: "int list"
  signal_per_spad :: "int list"
  range_sigma_mm :: "int list"
  nb_target_detected :: "int list"
  ambient_per_spad :: "int list"
  nb_spads_enabled :: "int list"

text \<open>\<^verbatim>\<open>VL53L5cx::XtalkCalibrationData\<close>: a byte buffer, the member \<^verbatim>\<open>data\<close>.\<close>

type_synonym XtalkCalibrationData = "u8 list"

subsection \<open>Calls that leave the translation unit\<close>

text \<open>
  One constructor for each external routine the source calls, with the arguments it is
  given (the device and buffer pointers apart).
\<close>

datatype call =
    Call_Reset_Sensor u8
  | Call_is_alive
  | Call_init
  | Call_set_resolution vl_resolution
  | Call_set_target_order vl_target_order
  | Call_start_ranging
  | Call_check_data_ready
  | Call_get_ranging_data
  | Call_stop_ranging
  | Call_get_integration_time_ms
  | Call_motion_indicator_init vl_resolution
  | Call_motion_indicator_set_distance_motion u16 u16
  | Call_calibrate_xtalk u8 u8 u16
  | Call_get_caldata_xtalk
  | Call_set_ranging_mode vl_ranging_mode
  | Call_set_integration_time_ms u32

text \<open>
  The driver as the source uses it.  Every routine takes the device structure and
  returns a status byte and the device structure as it leaves it; a routine with an
  output or in-out pointer argument also returns what it leaves there.  The outputs
  \<^verbatim>\<open>isAlive\<close>, \<^verbatim>\<open>is_ready\<close> and \<^verbatim>\<open>integration_time_ms\<close> are zero
  when the source passes them, and \<open>motion_config_zero\<close> is the value of the local
  \<^verbatim>\<open>VL53L5CX_Motion_Configuration motion_config = {}\<close>.
\<close>

record ('x, 'm) driver =
  vl53l5cx_is_alive :: "'x VL53L5CX_Configuration \<Rightarrow> u8 \<times> u8 \<times> 'x VL53L5CX_Configuration"
  vl53l5cx_init :: "'x VL53L5CX_Configuration \<Rightarrow> u8 \<times> 'x VL53L5CX_Configuration"
  vl53l5cx_set_resolution ::
    "'x VL53L5CX_Configuration \<Rightarrow> vl_resolution \<Rightarrow> u8 \<times> 'x VL53L5CX_Configuration"
  vl53l5cx_set_target_order ::
    "'x VL53L5CX_Configuration \<Rightarrow> vl_target_order \<Rightarrow> u8 \<times> 'x VL53L5CX_Configuration"
  vl53l5cx_start_ranging :: "'x VL53L5CX_Configuration \<Rightarrow> u8 \<times> 'x VL53L5CX_Configuration"
  vl53l5cx_check_data_ready ::
    "'x VL53L5CX_Configuration \<Rightarrow> u8 \<times> u8 \<times> 'x VL53L5CX_Configuration"
  vl53l5cx_get_ranging_data ::
    "'x VL53L5CX_Configuration \<Rightarrow> VL53L5CX_ResultsData
      \<Rightarrow> u8 \<times> VL53L5CX_ResultsData \<times> 'x VL53L5CX_Configuration"
  vl53l5cx_stop_ranging :: "'x VL53L5CX_Configuration \<Rightarrow> u8 \<times> 'x VL53L5CX_Configuration"
  vl53l5cx_get_integration_time_ms ::
    "'x VL53L5CX_Configuration \<Rightarrow> u8 \<times> u32 \<times> 'x VL53L5CX_Configuration"
  vl53l5cx_motion_indicator_init ::
    "'x VL53L5CX_Configuration \<Rightarrow> 'm \<Rightarrow> vl_resolution
      \<Rightarrow> u8 \<times> 'm \<times> 'x VL53L5CX_Configuration"
  vl53l5cx_motion_indicator_set_distance_motion ::
    "'x VL53L5CX_Configuration \<Rightarrow> 'm \<Rightarrow> u16 \<Rightarrow> u16
      \<Rightarrow> u8 \<times> 'm \<times> 'x VL53L5CX_Configuration"
  vl53l5cx_calibrate_xtalk ::
    "'x VL53L5CX_Configuration \<Rightarrow> u8 \<Rightarrow> u8 \<Rightarrow> u16 \<Rightarrow> u8 \<times> 'x VL53L5CX_Configuration"
  vl53l5cx_get_caldata_xtalk ::
    "'x VL53L5CX_Configuration \<Rightarrow> XtalkCalibrationData
      \<Rightarrow> u8 \<times> XtalkCalibrationData \<times> 'x VL53L5CX_Configuration"
  vl53l5cx_set_ranging_mode ::
    "'x VL53L5CX_Configuration \<Rightarrow> vl_ranging_mode \<Rightarrow> u8 \<times> 'x VL53L5CX_Configuration"
  vl53l5cx_set_integration_time_ms ::
    "'x VL53L5CX_Configuration \<Rightarrow> u32 \<Rightarrow> u8 \<times> 'x VL53L5CX_Configuration"
  motion_config_zero :: 'm

subsection \<open>The objects\<close>

text \<open>
  The fields of \<^verbatim>\<open>VL53L5cx\<close>, and \<open>calls\<close>: the external calls made on
  the object so far, oldest first.  \<^verbatim>\<open>VL53L5cxAutonomous\<close> extends the class by
  one field.
\<close>

record 'x VL53L5cx =
  lpn_pin :: u8
  dev :: "'x VL53L5CX_Configuration"
  resolution :: resolution_t
  target_order :: target_order_t
  ranging_frequency :: u8
  results :: VL53L5CX_ResultsData
  calls :: "call list"

record 'x VL53L5cxAutonomous = "'x VL53L5cx" +
  integration_time_msec :: u32

subsection \<open>Fatal errors\<close>

text \<open>
  An operation either returns a value and the object, or never returns: the outcome
  \<open>Halted\<close> holds the message and arguments given to the debugger and the object as
  it was at that moment.
\<close>

datatype arg = Num int | Str string

datatype ('a, 's) outcome = Halted string "arg list" 's | Returned 'a 's

text \<open>
  Modelled from the spec: \<^verbatim>\<open>Debugger::reportForever\<close> (Debugger.hpp is not among
  the sources).  It reports a diagnostic message, optionally formatted with arguments,
  and then halts execution permanently: control never comes back to the caller.
\<close>

definition reportForever :: "string \<Rightarrow> arg list \<Rightarrow> 's \<Rightarrow> ('a, 's) outcome" where
  "reportForever fmt args s = Halted fmt args s"

text \<open>Statement sequencing: what follows a statement that never returns is not run.\<close>

definition andThen ::
  "('s \<Rightarrow> ('a, 's) outcome) \<Rightarrow> ('a \<Rightarrow> 's \<Rightarrow> ('b, 's) outcome) \<Rightarrow> 's \<Rightarrow> ('b, 's) outcome" where
  "andThen f g s = (case f s of Halted fmt args s' \<Rightarrow> Halted fmt args s' | Returned v s' \<Rightarrow> g v s')"

text \<open>
  A driver call on \<^verbatim>\<open>&_dev\<close>: the device structure is replaced by what the
  driver leaves, the call is recorded, and the status (with the output, if any) is the
  value.
\<close>

definition dev_call ::
  "call \<Rightarrow> ('x VL53L5CX_Configuration \<Rightarrow> u8 \<times> 'x VL53L5CX_Configuration)
    \<Rightarrow> ('x, 'z) VL53L5cx_scheme \<Rightarrow> (u8, ('x, 'z) VL53L5cx_scheme) outcome" where
  "dev_call c f s =
     (case f (dev s) of (status, d) \<Rightarrow> Returned status (s\<lparr>dev := d, calls := calls s @ [c]\<rparr>))"

definition dev_call_out ::
  "call \<Rightarrow> ('x VL53L5CX_Configuration \<Rightarrow> u8 \<times> 'v \<times> 'x VL53L5CX_Configuration)
    \<Rightarrow> ('x, 'z) VL53L5cx_scheme \<Rightarrow> (u8 \<times> 'v, ('x, 'z) VL53L5cx_scheme) outcome" where
  "dev_call_out c f s =
     (case f (dev s) of (status, out, d) \<Rightarrow>
        Returned (status, out) (s\<lparr>dev := d, calls := calls s @ [c]\<rparr>))"

text \<open>
  \<^verbatim>\<open>Reset_Sensor(pin)\<close> is the platform's routine that toggles the LPn pin.  It is
  given no pointer into the object, so only the call is recorded.
\<close>

definition Reset_Sensor :: "u8 \<Rightarrow> ('x, 'z) VL53L5cx_scheme \<Rightarrow> (unit, ('x, 'z) VL53L5cx_scheme) outcome" where
  "Reset_Sensor pin s = Returned () (s\<lparr>calls := calls s @ [Call_Reset_Sensor pin]\<rparr>)"

subsection \<open>The private checks\<close>

definition bozoFilter :: "bool \<Rightarrow> string \<Rightarrow> 's \<Rightarrow> (unit, 's) outcome" where
  "bozoFilter cond msg s = (if cond then reportForever msg [] s else Returned () s)"

definition checkStatus :: "u8 \<Rightarrow> string \<Rightarrow> 's \<Rightarrow> (unit, 's) outcome" where
  "checkStatus error fmt s =
     (if error \<noteq> 0 then reportForever fmt [Num (uint error)] s else Returned () s)"

definition rangeFilter :: "u16 \<Rightarrow> u16 \<Rightarrow> u16 \<Rightarrow> string \<Rightarrow> 's \<Rightarrow> (unit, 's) outcome" where
  "rangeFilter val minval maxval valname s =
     (if val < minval \<or> val > maxval
      then reportForever ''%s must be between %d and %d''
             [Str valname, Num (uint minval), Num (uint maxval)] s
      else Returned () s)"

text \<open>
  \<^verbatim>\<open>check_ranging_frequency\<close>: the parameters \<^verbatim>\<open>resolution\<close> and
  \<^verbatim>\<open>label\<close> are not used in the body, and the format's only argument is
  \<^verbatim>\<open>maxval\<close>.
\<close>

definition check_ranging_frequency ::
  "resolution_t \<Rightarrow> u8 \<Rightarrow> string \<Rightarrow> ('x, 'z) VL53L5cx_scheme \<Rightarrow> (unit, ('x, 'z) VL53L5cx_scheme) outcome" where
  "check_ranging_frequency res maxval label s =
     (if ranging_frequency s < 1 \<or> ranging_frequency s > maxval
      then reportForever
             ''Ranging frequency for %s resolution must be at least 1 and no more than %d''
             [Num (uint maxval)] s
      else Returned () s)"

subsection \<open>Construction and startup\<close>

text \<open>
  The constructor stores its arguments in the object \<open>this\<close>, whose other fields
  are left as they are; no external call has been made on a new object.
\<close>

definition VL53L5cx_new ::
  "('x, 'z) VL53L5cx_scheme \<Rightarrow> u8 \<Rightarrow> u8 \<Rightarrow> resolution_t \<Rightarrow> target_order_t \<Rightarrow> u8
    \<Rightarrow> ('x, 'z) VL53L5cx_scheme" where
  "VL53L5cx_new this lpnPin deviceAddress res targetOrder rangingFrequency =
     this\<lparr>lpn_pin := lpnPin,
          dev := (dev this)\<lparr>platform_address := deviceAddress\<rparr>,
          resolution := res,
          target_order := targetOrder,
          ranging_frequency := rangingFrequency,
          calls := []\<rparr>"

definition init ::
  "('x, 'm) driver \<Rightarrow> ('x, 'z) VL53L5cx_scheme \<Rightarrow> (unit, ('x, 'z) VL53L5cx_scheme) outcome" where
  "init drv =
     andThen (check_ranging_frequency RESOLUTION_4X4 60 ''4X4'') (\<lambda>_.
     andThen (check_ranging_frequency RESOLUTION_8X8 15 ''8X8'') (\<lambda>_.
     andThen (\<lambda>s. Reset_Sensor (lpn_pin s) s) (\<lambda>_.
     andThen (dev_call_out Call_is_alive (vl53l5cx_is_alive drv)) (\<lambda>(error, isAlive).
     andThen (if isAlive = 0 \<or> error \<noteq> 0
              then reportForever ''VL53L5CX not detected at requested address'' []
              else Returned ()) (\<lambda>_.
     andThen (dev_call Call_init (vl53l5cx_init drv)) (\<lambda>error.
     andThen (if error \<noteq> 0
              then reportForever ''VL53L5CX ULD Loading failed'' []
              else Returned ()) (\<lambda>_.
     andThen (\<lambda>s. let r = (if resolution s = RESOLUTION_4X4
                            then VL53L5CX_RESOLUTION_4X4 else VL53L5CX_RESOLUTION_8X8)
                   in dev_call (Call_set_resolution r) (\<lambda>d. vl53l5cx_set_resolution drv d r) s) (\<lambda>_.
     andThen (\<lambda>s. let t = (if target_order s = TARGET_ORDER_STRONGEST
                            then VL53L5CX_TARGET_ORDER_STRONGEST
                            else VL53L5CX_TARGET_ORDER_CLOSEST)
                   in dev_call (Call_set_target_order t) (\<lambda>d. vl53l5cx_set_target_order drv d t) s) (\<lambda>_.
     Returned ())))))))))"

definition start_ranging ::
  "('x, 'm) driver \<Rightarrow> ('x, 'z) VL53L5cx_scheme \<Rightarrow> (unit, ('x, 'z) VL53L5cx_scheme) outcome" where
  "start_ranging drv =
     andThen (dev_call Call_start_ranging (vl53l5cx_start_ranging drv)) (\<lambda>error.
     checkStatus error ''start error = 0x%02X'')"

text \<open>\<^verbatim>\<open>VL53L5cx::begin\<close>.\<close>

definition VL53L5cx_begin ::
  "('x, 'm) driver \<Rightarrow> ('x, 'z) VL53L5cx_scheme \<Rightarrow> (unit, ('x, 'z) VL53L5cx_scheme) outcome" where
  "VL53L5cx_begin drv =
     andThen (init drv) (\<lambda>_.
     start_ranging drv)"

subsection \<open>Polling and the accessors\<close>

text \<open>
  \<^verbatim>\<open>vl53l5cx_get_ranging_data(&_dev, &_results)\<close>: the driver is handed the
  device structure and the whole result buffer, and both are replaced by what it leaves.
\<close>

definition get_ranging_data ::
  "('x, 'm) driver \<Rightarrow> ('x, 'z) VL53L5cx_scheme \<Rightarrow> (u8, ('x, 'z) VL53L5cx_scheme) outcome" where
  "get_ranging_data drv s =
     (case vl53l5cx_get_ranging_data drv (dev s) (results s) of (status, r, d) \<Rightarrow>
        Returned status (s\<lparr>dev := d, results := r, calls := calls s @ [Call_get_ranging_data]\<rparr>))"

definition isReady ::
  "('x, 'm) driver \<Rightarrow> ('x, 'z) VL53L5cx_scheme \<Rightarrow> (bool, ('x, 'z) VL53L5cx_scheme) outcome" where
  "isReady drv =
     andThen (dev_call_out Call_check_data_ready (vl53l5cx_check_data_ready drv)) (\<lambda>(status, is_ready).
     if is_ready \<noteq> 0
     then andThen (get_ranging_data drv) (\<lambda>_. Returned True)
     else Returned False)"

definition getStreamCount :: "('x, 'z) VL53L5cx_scheme \<Rightarrow> u8" where
  "getStreamCount s = streamcount (dev s)"

text \<open>
  An element read through an accessor is converted to the return type
  \<^verbatim>\<open>uint8_t\<close>, which keeps its value modulo 256.  Reading past the end of an
  array is undefined in C: it is the result \<open>None\<close>.
\<close>

definition read_u8 :: "int list \<Rightarrow> nat \<Rightarrow> u8 option" where
  "read_u8 xs i = (if i < length xs then Some (word_of_int (xs ! i)) else None)"

text \<open>
  The accessors take \<open>nb\<close>, the vendor's macro
  \<^verbatim>\<open>VL53L5CX_NB_TARGET_PER_ZONE\<close>.  The index is computed in \<^verbatim>\<open>int\<close>
  or wider, where it cannot wrap for 8-bit operands.
\<close>

definition getTargetStatus :: "nat \<Rightarrow> ('x, 'z) VL53L5cx_scheme \<Rightarrow> u8 \<Rightarrow> u8 \<Rightarrow> u8 option" where
  "getTargetStatus nb s zone target =
     read_u8 (target_status (results s)) (nb * unat zone + unat target)"

definition getDistance :: "nat \<Rightarrow> ('x, 'z) VL53L5cx_scheme \<Rightarrow> u8 \<Rightarrow> u8 \<Rightarrow> u8 option" where
  "getDistance nb s zone target =
     read_u8 (distance_mm (results s)) (nb * unat zone + unat target)"

definition getSignalPerSpad :: "nat \<Rightarrow> ('x, 'z) VL53L5cx_scheme \<Rightarrow> u8 \<Rightarrow> u8 \<Rightarrow> u8 option" where
  "getSignalPerSpad nb s zone target =
     read_u8 (signal_per_spad (results s)) (nb * unat zone + unat target)"

definition getRangeSigma :: "nat \<Rightarrow> ('x, 'z) VL53L5cx_scheme \<Rightarrow> u8 \<Rightarrow> u8 \<Rightarrow> u8 option" where
  "getRangeSigma nb s zone target =
     read_u8 (range_sigma_mm (results s)) (nb * unat zone + unat target)"

definition getNbTargetDetected :: "('x, 'z) VL53L5cx_scheme \<Rightarrow> u8 \<Rightarrow> u8 option" where
  "getNbTargetDetected s zone = read_u8 (nb_target_detected (results s)) (unat zone)"

definition getAmbientPerSpad :: "('x, 'z) VL53L5cx_scheme \<Rightarrow> u8 \<Rightarrow> u8 option" where
  "getAmbientPerSpad s zone = read_u8 (ambient_per_spad (results s)) (unat zone)"

definition getNbSpadsEnabled :: "('x, 'z) VL53L5cx_scheme \<Rightarrow> u8 \<Rightarrow> u8 option" where
  "getNbSpadsEnabled s zone = read_u8 (nb_spads_enabled (results s)) (unat zone)"

subsection \<open>Stopping, integration time, motion indicator, calibration\<close>

definition stop ::
  "('x, 'm) driver \<Rightarrow> ('x, 'z) VL53L5cx_scheme \<Rightarrow> (unit, ('x, 'z) VL53L5cx_scheme) outcome" where
  "stop drv =
     andThen (dev_call Call_stop_ranging (vl53l5cx_stop_ranging drv)) (\<lambda>_.
     Returned ())"

definition getIntegrationTimeMsec ::
  "('x, 'm) driver \<Rightarrow> ('x, 'z) VL53L5cx_scheme \<Rightarrow> (u32, ('x, 'z) VL53L5cx_scheme) outcome" where
  "getIntegrationTimeMsec drv =
     andThen (dev_call_out Call_get_integration_time_ms (vl53l5cx_get_integration_time_ms drv))
       (\<lambda>(status, integration_time_ms).
     andThen (checkStatus status (''vl53l5cx_get_integration_time_ms failed, status %u'' @ [CHR 0x0A])) (\<lambda>_.
     Returned integration_time_ms))"

text \<open>
  \<^verbatim>\<open>addMotionIndicator\<close>.  The operands of
  \<^verbatim>\<open>distanceMax-distanceMin > 1500\<close> are promoted before the subtraction; the
  line is reached only with \<^verbatim>\<open>distanceMax >= distanceMin\<close>, where the
  difference is the same at every width of \<^verbatim>\<open>int\<close>.
\<close>

definition addMotionIndicator ::
  "('x, 'm) driver \<Rightarrow> u16 \<Rightarrow> u16 \<Rightarrow> ('x, 'z) VL53L5cx_scheme
    \<Rightarrow> (unit, ('x, 'z) VL53L5cx_scheme) outcome" where
  "addMotionIndicator drv distanceMin distanceMax =
     andThen (\<lambda>s. let r = (if resolution s = RESOLUTION_4X4
                            then VL53L5CX_RESOLUTION_4X4 else VL53L5CX_RESOLUTION_8X8)
                   in dev_call_out (Call_motion_indicator_init r)
                        (\<lambda>d. vl53l5cx_motion_indicator_init drv d (motion_config_zero drv) r) s)
       (\<lambda>(status, motion_config).
     andThen (checkStatus status ''Motion indicator init failed with status : %u'') (\<lambda>_.
     if distanceMin > 0 \<and> distanceMax > 0
     then
       andThen (bozoFilter (distanceMin < 400)
                  ''Motion indicator minimum distance must be at least 400mm'') (\<lambda>_.
       andThen (bozoFilter (distanceMax < distanceMin)
                  ''Motion indicator maximum distance must be greater than minimum'') (\<lambda>_.
       andThen (bozoFilter (uint distanceMax - uint distanceMin > 1500)
                  ''Motion indicator maximum distance can be no greater than 1500mm above minimum distance'') (\<lambda>_.
       andThen (dev_call_out (Call_motion_indicator_set_distance_motion distanceMin distanceMax)
                  (\<lambda>d. vl53l5cx_motion_indicator_set_distance_motion drv d motion_config
                          distanceMin distanceMax)) (\<lambda>(status, motion_config).
       checkStatus status (''Motion indicator set distance failed with status : %u'' @ [CHR 0x0A])))))
     else Returned ()))"

definition calibrateXtalk ::
  "('x, 'm) driver \<Rightarrow> u8 \<Rightarrow> u8 \<Rightarrow> u16 \<Rightarrow> ('x, 'z) VL53L5cx_scheme
    \<Rightarrow> (unit, ('x, 'z) VL53L5cx_scheme) outcome" where
  "calibrateXtalk drv reflectancePercent samples distance =
     andThen (rangeFilter (ucast reflectancePercent) 1 99 ''Reflectance perecent'') (\<lambda>_.
     andThen (rangeFilter (ucast samples) 1 16 ''Number of samples'') (\<lambda>_.
     andThen (rangeFilter distance 600 3000 ''Distance'') (\<lambda>_.
     andThen (dev_call (Call_calibrate_xtalk reflectancePercent samples distance)
                (\<lambda>d. vl53l5cx_calibrate_xtalk drv d reflectancePercent samples distance)) (\<lambda>error.
     checkStatus error ''vl53l5cx_calibrate_xtalk failed, status %u''))))"

text \<open>
  The calibration buffer is passed by reference: the value of these two operations is
  the caller's buffer as the operation leaves it.
\<close>

definition getXtalkCalibrationData ::
  "('x, 'm) driver \<Rightarrow> XtalkCalibrationData \<Rightarrow> ('x, 'z) VL53L5cx_scheme
    \<Rightarrow> (XtalkCalibrationData, ('x, 'z) VL53L5cx_scheme) outcome" where
  "getXtalkCalibrationData drv data =
     andThen (dev_call_out Call_get_caldata_xtalk (\<lambda>d. vl53l5cx_get_caldata_xtalk drv d data))
       (\<lambda>(status, data').
     Returned data')"

definition setXtalkCalibrationData ::
  "('x, 'm) driver \<Rightarrow> XtalkCalibrationData \<Rightarrow> ('x, 'z) VL53L5cx_scheme
    \<Rightarrow> (XtalkCalibrationData, ('x, 'z) VL53L5cx_scheme) outcome" where
  "setXtalkCalibrationData drv data = Returned data"

subsection \<open>The autonomous variant\<close>

text \<open>
  The derived constructor passes four arguments to the base constructor, so the ranging
  frequency is the default of the class header, here \<open>defaultFrequency\<close>.
\<close>

definition VL53L5cxAutonomous_new ::
  "u8 \<Rightarrow> ('x, 'z) VL53L5cxAutonomous_scheme \<Rightarrow> u8 \<Rightarrow> u32 \<Rightarrow> u8 \<Rightarrow> resolution_t \<Rightarrow> target_order_t
    \<Rightarrow> ('x, 'z) VL53L5cxAutonomous_scheme" where
  "VL53L5cxAutonomous_new defaultFrequency this lpnPin integrationTimeMsec deviceAddress res targetOrder =
     (VL53L5cx_new this lpnPin deviceAddress res targetOrder defaultFrequency)
       \<lparr>integration_time_msec := integrationTimeMsec\<rparr>"

text \<open>\<^verbatim>\<open>VL53L5cxAutonomous::begin\<close>.\<close>

definition VL53L5cxAutonomous_begin ::
  "('x, 'm) driver \<Rightarrow> ('x, 'z) VL53L5cxAutonomous_scheme
    \<Rightarrow> (unit, ('x, 'z) VL53L5cxAutonomous_scheme) outcome" where
  "VL53L5cxAutonomous_begin drv =
     andThen (init drv) (\<lambda>_.
     andThen (dev_call (Call_set_ranging_mode VL53L5CX_RANGING_MODE_AUTONOMOUS)
                (\<lambda>d. vl53l5cx_set_ranging_mode drv d VL53L5CX_RANGING_MODE_AUTONOMOUS)) (\<lambda>error.
     andThen (checkStatus error (''vl53l5cx_set_ranging_mode failed, status %u'' @ [CHR 0x0A])) (\<lambda>_.
     andThen (\<lambda>s. dev_call (Call_set_integration_time_ms (integration_time_msec s))
                     (\<lambda>d. vl53l5cx_set_integration_time_ms drv d (integration_time_msec s)) s) (\<lambda>_.
     start_ranging drv))))"

subsection \<open>Observing an outcome\<close>

definition is_halted :: "('a, 's) outcome \<Rightarrow> bool" where
  "is_halted r = (case r of Halted fmt args s \<Rightarrow> True | Returned v s \<Rightarrow> False)"

definition final_state :: "('a, 's) outcome \<Rightarrow> 's" where
  "final_state r = (case r of Halted fmt args s \<Rightarrow> s | Returned v s \<Rightarrow> s)"

subsection \<open>A driver and an object to run the operations on\<close>

text \<open>
  A driver that always reports success.  Its private state is the number of frames it
  has ready: \<open>vl53l5cx_check_data_ready\<close> reports a frame and advances the stream
  count while that number is positive, and \<open>vl53l5cx_get_ranging_data\<close> delivers
  \<open>sample_frame\<close>, with one target per zone at 1000 mm.  The arrays of a frame
  have the 64 entries of the large grid, whatever the resolution in use.
\<close>

definition sample_frame :: VL53L5CX_ResultsData where
  "sample_frame =
     \<lparr>target_status = replicate 64 5,
      distance_mm = replicate 64 1000,
      signal_per_spad = replicate 64 70000,
      range_sigma_mm = replicate 64 3,
      nb_target_detected = replicate 64 1,
      ambient_per_spad = replicate 64 2,
      nb_spads_enabled = replicate 64 1280\<rparr>"

definition blank_frame :: VL53L5CX_ResultsData where
  "blank_frame =
     \<lparr>target_status = replicate 64 0,
      distance_mm = replicate 64 0,
      signal_per_spad = replicate 64 0,
      range_sigma_mm = replicate 64 0,
      nb_target_detected = replicate 64 0,
      ambient_per_spad = replicate 64 0,
      nb_spads_enabled = replicate 64 0\<rparr>"

definition sample_driver :: "(nat, unit) driver" where
  "sample_driver =
     \<lparr>vl53l5cx_is_alive = (\<lambda>d. (0, 1, d)),
      vl53l5cx_init = (\<lambda>d. (0, d)),
      vl53l5cx_set_resolution = (\<lambda>d r. (0, d)),
      vl53l5cx_set_target_order = (\<lambda>d t. (0, d)),
      vl53l5cx_start_ranging = (\<lambda>d. (0, d)),
      vl53l5cx_check_data_ready =
        (\<lambda>d. if 0 < uld_state d then (0, 1, d\<lparr>streamcount := streamcount d + 1\<rparr>) else (0, 0, d)),
      vl53l5cx_get_ranging_data = (\<lambda>d r. (0, sample_frame, d\<lparr>uld_state := uld_state d - 1\<rparr>)),
      vl53l5cx_stop_ranging = (\<lambda>d. (0, d)),
      vl53l5cx_get_integration_time_ms = (\<lambda>d. (0, 5, d)),
      vl53l5cx_motion_indicator_init = (\<lambda>d m r. (0, m, d)),
      vl53l5cx_motion_indicator_set_distance_motion = (\<lambda>d m lo hi. (0, m, d)),
      vl53l5cx_calibrate_xtalk = (\<lambda>d r n dist. (0, d)),
      vl53l5cx_get_caldata_xtalk = (\<lambda>d buf. (0, buf, d)),
      vl53l5cx_set_ranging_mode = (\<lambda>d m. (0, d)),
      vl53l5cx_set_integration_time_ms = (\<lambda>d t. (0, d)),
      motion_config_zero = ()\<rparr>"

text \<open>
  An autonomous object on the small grid at 10 Hz, before any call, holding a blank
  frame; \<open>pending n\<close> is the same object with \<open>n\<close> frames ready in the device.
\<close>

definition sample_object :: "nat VL53L5cxAutonomous" where
  "sample_object =
     \<lparr>lpn_pin = 14,
      dev = \<lparr>platform_address = 0x29, streamcount = 0, uld_state = 0\<rparr>,
      resolution = RESOLUTION_4X4,
      target_order = TARGET_ORDER_CLOSEST,
      ranging_frequency = 10,
      results = blank_frame,
      calls = [],
      integration_time_msec = 10\<rparr>"

definition pending :: "nat \<Rightarrow> nat VL53L5cxAutonomous" where
  "pending n = sample_object\<lparr>dev := (dev sample_object)\<lparr>uld_state := n\<rparr>\<rparr>"

text \<open>The object after one poll and after two polls, with two frames ready.\<close>

definition first_poll :: "nat VL53L5cxAutonomous" where
  "first_poll = final_state (isReady sample_driver (pending 2))"

definition second_poll :: "nat VL53L5cxAutonomous" where
  "second_poll = final_state (isReady sample_driver first_poll)"

text \<open>
  A driver that keeps, as its private state, the ranging mode last selected, the
  integration time last set and whether ranging has been started, and an autonomous
  object for it.  It reports whatever statuses it is given for the mode selection and
  for the start of ranging.
\<close>

definition tracking_driver ::
  "u8 \<Rightarrow> u8 \<Rightarrow> (vl_ranging_mode option \<times> u32 \<times> bool, unit) driver" where
  "tracking_driver mode_status start_status =
     \<lparr>vl53l5cx_is_alive = (\<lambda>d. (0, 1, d)),
      vl53l5cx_init = (\<lambda>d. (0, d)),
      vl53l5cx_set_resolution = (\<lambda>d r. (0, d)),
      vl53l5cx_set_target_order = (\<lambda>d t. (0, d)),
      vl53l5cx_start_ranging =
        (\<lambda>d. (start_status,
               d\<lparr>streamcount := 255,
                  uld_state := (fst (uld_state d), fst (snd (uld_state d)), True)\<rparr>)),
      vl53l5cx_check_data_ready = (\<lambda>d. (0, 0, d)),
      vl53l5cx_get_ranging_data = (\<lambda>d r. (0, r, d)),
      vl53l5cx_stop_ranging = (\<lambda>d. (0, d)),
      vl53l5cx_get_integration_time_ms = (\<lambda>d. (0, fst (snd (uld_state d)), d)),
      vl53l5cx_motion_indicator_init = (\<lambda>d m r. (0, m, d)),
      vl53l5cx_motion_indicator_set_distance_motion = (\<lambda>d m lo hi. (0, m, d)),
      vl53l5cx_calibrate_xtalk = (\<lambda>d r n dist. (0, d)),
      vl53l5cx_get_caldata_xtalk = (\<lambda>d buf. (0, buf, d)),
      vl53l5cx_set_ranging_mode =
        (\<lambda>d m. (mode_status, d\<lparr>uld_state := (Some m, snd (uld_state d))\<rparr>)),
      vl53l5cx_set_integration_time_ms =
        (\<lambda>d t. (0, d\<lparr>uld_state := (fst (uld_state d), t, snd (snd (uld_state d)))\<rparr>)),
      motion_config_zero = ()\<rparr>"

definition tracking_object :: "(vl_ranging_mode option \<times> u32 \<times> bool) VL53L5cxAutonomous" where
  "tracking_object =
     \<lparr>lpn_pin = 14,
      dev = \<lparr>platform_address = 0x29, streamcount = 0, uld_state = (None, 5, False)\<rparr>,
      resolution = RESOLUTION_8X8,
      target_order = TARGET_ORDER_STRONGEST,
      ranging_frequency = 15,
      results = blank_frame,
      calls = [],
      integration_time_msec = 10\<rparr>"

section \<open>Properties\<close>

subsection \<open>Auxiliary facts\<close>

lemma is_halted_simps [simp]:
  "is_halted (Halted fmt args s) = True"
  "is_halted (Returned v s) = False"
  by (simp_all add: is_halted_def)

lemma final_state_simps [simp]:
  "final_state (Halted fmt args s) = s"
  "final_state (Returned v s) = s"
  by (simp_all add: final_state_def)

lemmas op_defs =
  andThen_def reportForever_def dev_call_def dev_call_out_def Reset_Sensor_def
  bozoFilter_def checkStatus_def rangeFilter_def check_ranging_frequency_def

text \<open>
  What the two frequency checks of \<open>init\<close> do together: both run whatever the
  resolution is, so the frequency is refused whenever it is 0 or above 15, before
  anything else has happened.
\<close>

lemma init_frequency_halts:
  "ranging_frequency s < 1 \<or> 15 < ranging_frequency s \<Longrightarrow>
   init drv s =
     Halted ''Ranging frequency for %s resolution must be at least 1 and no more than %d''
       [Num (if ranging_frequency s < 1 \<or> 60 < ranging_frequency s then 60 else 15)] s"
  by (auto simp add: init_def op_defs)

lemma init_frequency_passes:
  "\<not> (ranging_frequency s < 1 \<or> 15 < ranging_frequency s) \<Longrightarrow>
   calls (final_state (init drv s)) \<noteq> calls s"
  by (auto simp add: init_def op_defs Let_def word_less_def word_le_def
      split: prod.splits)

text \<open>An \<open>init\<close> that returns has changed the device structure and the call record only.\<close>

lemma init_frame:
  "init drv s = Returned v s1 \<Longrightarrow>
   s1 = s\<lparr>dev := dev s1,
          calls := calls s @
            [Call_Reset_Sensor (lpn_pin s), Call_is_alive, Call_init,
             Call_set_resolution (if resolution s = RESOLUTION_4X4
                                  then VL53L5CX_RESOLUTION_4X4 else VL53L5CX_RESOLUTION_8X8),
             Call_set_target_order (if target_order s = TARGET_ORDER_STRONGEST
                                    then VL53L5CX_TARGET_ORDER_STRONGEST
                                    else VL53L5CX_TARGET_ORDER_CLOSEST)]\<rparr>"
  unfolding init_def op_defs
  by (auto simp add: Let_def split: if_splits prod.splits)

text \<open>Widening an 8-bit argument to the 16-bit parameter of \<open>rangeFilter\<close>.\<close>

lemma uint_ucast_u8: "uint (ucast (a::u8) :: u16) = uint a"
  by (simp add: uint_up_ucast is_up)

lemma ucast_u8_eq_0: "((ucast (a::u8) :: u16) = 0) = (a = 0)"
  using uint_ucast_u8 [of a] by (metis uint_0_iff)

lemma ucast_u8_numeral_less:
  "((99::u16) < ucast (a::u8)) = (99 < a)"
  "((16::u16) < ucast (a::u8)) = (16 < a)"
  by (simp_all add: word_less_def uint_ucast_u8)

lemma calibrateXtalk_invalid:
  "r < 1 \<or> 99 < r \<or> n < 1 \<or> 16 < n \<or> d < 600 \<or> 3000 < d \<Longrightarrow>
   \<exists>v lo hi. calibrateXtalk drv r n d s =
     Halted ''%s must be between %d and %d'' [Str v, Num lo, Num hi] s"
  by (auto simp add: calibrateXtalk_def op_defs ucast_u8_numeral_less ucast_u8_eq_0)

lemma calibrateXtalk_valid:
  "\<not> (r < 1 \<or> 99 < r \<or> n < 1 \<or> 16 < n \<or> d < 600 \<or> 3000 < d) \<Longrightarrow>
   calibrateXtalk drv r n d s =
     (case vl53l5cx_calibrate_xtalk drv (dev s) r n d of (error, dv) \<Rightarrow>
        checkStatus error ''vl53l5cx_calibrate_xtalk failed, status %u''
          (s\<lparr>dev := dv, calls := calls s @ [Call_calibrate_xtalk r n d]\<rparr>))"
  by (auto simp add: calibrateXtalk_def op_defs ucast_u8_numeral_less ucast_u8_eq_0
      split: prod.splits)

lemma addMotionIndicator_rejected:
  assumes "0 < distanceMin" "0 < distanceMax"
    and "distanceMin < 400 \<or> distanceMax < distanceMin \<or>
         1500 < uint distanceMax - uint distanceMin"
  shows "is_halted (addMotionIndicator drv distanceMin distanceMax s) \<and>
     calls (final_state (addMotionIndicator drv distanceMin distanceMax s)) =
       calls s @ [Call_motion_indicator_init
                    (if resolution s = RESOLUTION_4X4
                     then VL53L5CX_RESOLUTION_4X4 else VL53L5CX_RESOLUTION_8X8)]"
  using assms
  by (auto simp add: addMotionIndicator_def op_defs Let_def split: prod.splits)

text \<open>
  A refused window leaves the device structure as the driver's initialisation of the
  motion indicator left it.
\<close>

lemma addMotionIndicator_rejected_dev:
  assumes "0 < distanceMin" "0 < distanceMax"
    and "distanceMin < 400 \<or> distanceMax < distanceMin \<or>
         1500 < uint distanceMax - uint distanceMin"
  shows "dev (final_state (addMotionIndicator drv distanceMin distanceMax s)) =
     snd (snd (vl53l5cx_motion_indicator_init drv (dev s) (motion_config_zero drv)
                 (if resolution s = RESOLUTION_4X4
                  then VL53L5CX_RESOLUTION_4X4 else VL53L5CX_RESOLUTION_8X8)))"
  using assms
  by (auto simp add: addMotionIndicator_def op_defs Let_def split: prod.splits)

text \<open>
  The window checks at the boundary pairs: a minimum of 400 with a maximum of 401, and
  a window of exactly 1500, both reach the driver.
\<close>

lemma addMotionIndicator_boundary_pairs:
  "addMotionIndicator sample_driver 400 401 sample_object =
     Returned () (sample_object\<lparr>calls :=
       [Call_motion_indicator_init VL53L5CX_RESOLUTION_4X4,
        Call_motion_indicator_set_distance_motion 400 401]\<rparr>)"
  "addMotionIndicator sample_driver 1000 2500 sample_object =
     Returned () (sample_object\<lparr>calls :=
       [Call_motion_indicator_init VL53L5CX_RESOLUTION_4X4,
        Call_motion_indicator_set_distance_motion 1000 2500]\<rparr>)"
  by (simp_all add: addMotionIndicator_def op_defs sample_driver_def sample_object_def)

text \<open>What an accessor returns for an element inside the array.\<close>

lemma read_u8_mod:
  "i < length xs \<Longrightarrow> \<exists>v. read_u8 xs i = Some v \<and> uint v = xs ! i mod 256"
  by (simp add: read_u8_def uint_word_of_int)

lemma read_u8_byte:
  "i < length xs \<Longrightarrow> 0 \<le> xs ! i \<Longrightarrow> xs ! i < 256 \<Longrightarrow>
   \<exists>v. read_u8 xs i = Some v \<and> uint v = xs ! i"
  by (simp add: read_u8_def uint_word_of_int)

subsection \<open>Startup: the ranging frequency\<close>

text \<open>
  Claim C1 says that the frequency check of the startup depends on the resolution, so
  that an object on the small (4x4) grid with a frequency of exactly 60 starts.  The
  code runs the check against 15 for every resolution: \<^verbatim>\<open>begin\<close> on an object
  constructed with \<^verbatim>\<open>RESOLUTION_4X4\<close> and frequency 60 passes the check against
  60 and then halts in the check against 15, before any external call.
\<close>

theorem begin_small_grid_frequency_60_halts:
  "VL53L5cx_begin drv (VL53L5cx_new this lpnPin deviceAddress RESOLUTION_4X4 targetOrder 60) =
     Halted ''Ranging frequency for %s resolution must be at least 1 and no more than %d''
       [Num 15] (VL53L5cx_new this lpnPin deviceAddress RESOLUTION_4X4 targetOrder 60)"
  by (simp add: VL53L5cx_begin_def VL53L5cx_new_def init_def op_defs)

subsection \<open>The accessors\<close>

text \<open>
  Claim C2 says that an accessor returns exactly the value the last successful poll
  stored in the frame, with no alteration.  Every accessor returns \<^verbatim>\<open>uint8_t\<close>:
  after a poll that stored a distance of 1000 mm for zone 0, \<open>getDistance\<close> reads
  232.
\<close>

theorem getDistance_truncates_to_byte:
  "isReady sample_driver (pending 2) = Returned True first_poll \<and>
   distance_mm (results first_poll) ! 0 = 1000 \<and>
   getDistance nb first_poll 0 0 = Some 232"
  by (simp add: first_poll_def getDistance_def read_u8_def isReady_def get_ranging_data_def
      op_defs sample_driver_def sample_object_def pending_def sample_frame_def)

subsection \<open>Validation and driver calls\<close>

text \<open>
  Claim C3 says that in every validating operation the parameters are checked before
  any driver call.  This fails for \<^verbatim>\<open>addMotionIndicator\<close>, which initialises the
  motion indicator in the driver first: with the bounds 100 and 200 it halts on the
  minimum distance after that driver call.
\<close>

theorem addMotionIndicator_calls_driver_before_validation:
  "is_halted (addMotionIndicator sample_driver 100 200 sample_object) \<and>
   calls (final_state (addMotionIndicator sample_driver 100 200 sample_object)) =
     calls sample_object @ [Call_motion_indicator_init VL53L5CX_RESOLUTION_4X4]"
  by (simp add: addMotionIndicator_def op_defs sample_driver_def sample_object_def)

text \<open>
  Claim C3, amended.  With a ranging frequency that is 0, above 60, or above 15 on the
  large grid, both startups halt with the object unchanged, so before any external call;
  with a reflectance, sample count or distance out of range, \<open>calibrateXtalk\<close> halts
  with the object unchanged.  With a refused distance window (both bounds non-zero, and
  the minimum below 400, the maximum below the minimum, or the difference above 1500),
  \<open>addMotionIndicator\<close> halts after exactly one driver call, the initialisation of the
  motion indicator; the distance window is not sent.
\<close>

theorem validation_before_driver_calls:
  "(ranging_frequency s = 0 \<or> 60 < ranging_frequency s \<or>
      (resolution s = RESOLUTION_8X8 \<and> 15 < ranging_frequency s) \<longrightarrow>
      is_halted (VL53L5cx_begin drv s) \<and> final_state (VL53L5cx_begin drv s) = s) \<and>
   (ranging_frequency a = 0 \<or> 60 < ranging_frequency a \<or>
      (resolution a = RESOLUTION_8X8 \<and> 15 < ranging_frequency a) \<longrightarrow>
      is_halted (VL53L5cxAutonomous_begin drv a) \<and>
      final_state (VL53L5cxAutonomous_begin drv a) = a) \<and>
   (r < 1 \<or> 99 < r \<or> n < 1 \<or> 16 < n \<or> d < 600 \<or> 3000 < d \<longrightarrow>
      is_halted (calibrateXtalk drv r n d s) \<and> final_state (calibrateXtalk drv r n d s) = s) \<and>
   (0 < distanceMin \<and> 0 < distanceMax \<and>
      (distanceMin < 400 \<or> distanceMax < distanceMin \<or>
       1500 < uint distanceMax - uint distanceMin) \<longrightarrow>
      is_halted (addMotionIndicator drv distanceMin distanceMax s) \<and>
      calls (final_state (addMotionIndicator drv distanceMin distanceMax s)) =
        calls s @ [Call_motion_indicator_init
                     (if resolution s = RESOLUTION_4X4
                      then VL53L5CX_RESOLUTION_4X4 else VL53L5CX_RESOLUTION_8X8)])"
proof (intro conjI impI)
  assume "ranging_frequency s = 0 \<or> 60 < ranging_frequency s \<or>
      (resolution s = RESOLUTION_8X8 \<and> 15 < ranging_frequency s)"
  then have "ranging_frequency s < 1 \<or> 15 < ranging_frequency s"
    by (auto simp add: word_less_def)
  from init_frequency_halts [OF this, of drv]
  show "is_halted (VL53L5cx_begin drv s)" "final_state (VL53L5cx_begin drv s) = s"
    by (simp_all add: VL53L5cx_begin_def andThen_def)
next
  assume "ranging_frequency a = 0 \<or> 60 < ranging_frequency a \<or>
      (resolution a = RESOLUTION_8X8 \<and> 15 < ranging_frequency a)"
  then have "ranging_frequency a < 1 \<or> 15 < ranging_frequency a"
    by (auto simp add: word_less_def)
  from init_frequency_halts [OF this, of drv]
  show "is_halted (VL53L5cxAutonomous_begin drv a)"
    "final_state (VL53L5cxAutonomous_begin drv a) = a"
    by (simp_all add: VL53L5cxAutonomous_begin_def andThen_def)
next
  assume "r < 1 \<or> 99 < r \<or> n < 1 \<or> 16 < n \<or> d < 600 \<or> 3000 < d"
  from calibrateXtalk_invalid [OF this, of drv s]
  show "is_halted (calibrateXtalk drv r n d s)" "final_state (calibrateXtalk drv r n d s) = s"
    by auto
next
  assume "0 < distanceMin \<and> 0 < distanceMax \<and>
      (distanceMin < 400 \<or> distanceMax < distanceMin \<or>
       1500 < uint distanceMax - uint distanceMin)"
  then have "is_halted (addMotionIndicator drv distanceMin distanceMax s) \<and>
     calls (final_state (addMotionIndicator drv distanceMin distanceMax s)) =
       calls s @ [Call_motion_indicator_init
                    (if resolution s = RESOLUTION_4X4
                     then VL53L5CX_RESOLUTION_4X4 else VL53L5CX_RESOLUTION_8X8)]"
    by (intro addMotionIndicator_rejected) auto
  then show "is_halted (addMotionIndicator drv distanceMin distanceMax s)"
    "calls (final_state (addMotionIndicator drv distanceMin distanceMax s)) =
        calls s @ [Call_motion_indicator_init
                     (if resolution s = RESOLUTION_4X4
                      then VL53L5CX_RESOLUTION_4X4 else VL53L5CX_RESOLUTION_8X8)]"
    by auto
qed

text \<open>
  The amended claim at work: a frequency of 61 and of 0, a reflectance of 100, and a
  window of 1501 mm.
\<close>

theorem validation_before_driver_calls_witness:
  "is_halted (VL53L5cx_begin sample_driver (sample_object\<lparr>ranging_frequency := 61\<rparr>)) \<and>
   final_state (VL53L5cx_begin sample_driver (sample_object\<lparr>ranging_frequency := 61\<rparr>)) =
     sample_object\<lparr>ranging_frequency := 61\<rparr> \<and>
   is_halted (VL53L5cxAutonomous_begin sample_driver (sample_object\<lparr>ranging_frequency := 0\<rparr>)) \<and>
   final_state (VL53L5cxAutonomous_begin sample_driver (sample_object\<lparr>ranging_frequency := 0\<rparr>)) =
     sample_object\<lparr>ranging_frequency := 0\<rparr> \<and>
   is_halted (calibrateXtalk sample_driver 100 1 600 (sample_object\<lparr>ranging_frequency := 61\<rparr>)) \<and>
   final_state (calibrateXtalk sample_driver 100 1 600 (sample_object\<lparr>ranging_frequency := 61\<rparr>)) =
     sample_object\<lparr>ranging_frequency := 61\<rparr> \<and>
   is_halted (addMotionIndicator sample_driver 1000 2501 (sample_object\<lparr>ranging_frequency := 61\<rparr>)) \<and>
   calls (final_state
       (addMotionIndicator sample_driver 1000 2501 (sample_object\<lparr>ranging_frequency := 61\<rparr>))) =
     [Call_motion_indicator_init VL53L5CX_RESOLUTION_4X4]"
  using validation_before_driver_calls
    [where drv = sample_driver and s = "sample_object\<lparr>ranging_frequency := 61\<rparr>"
      and a = "sample_object\<lparr>ranging_frequency := 0\<rparr>"
      and r = 100 and n = 1 and d = 600 and distanceMin = 1000 and distanceMax = 2501]
  by (simp add: sample_object_def)

subsection \<open>The motion indicator's distance window\<close>

text \<open>
  Claim C4 says that a maximum distance equal to the minimum is refused.  The code
  tests \<^verbatim>\<open>distanceMax < distanceMin\<close> under the message "maximum distance must be
  greater than minimum": with both bounds 500 nothing is refused and the window
  is sent to the driver.
\<close>

theorem addMotionIndicator_accepts_equal_bounds:
  "addMotionIndicator sample_driver 500 500 sample_object =
     Returned () (sample_object\<lparr>calls :=
       [Call_motion_indicator_init VL53L5CX_RESOLUTION_4X4,
        Call_motion_indicator_set_distance_motion 500 500]\<rparr>)"
  by (simp add: addMotionIndicator_def op_defs sample_driver_def sample_object_def)

subsection \<open>Cross-talk calibration\<close>

text \<open>
  Claim C5.  \<open>calibrateXtalk\<close> halts in its range checks, with the object unchanged,
  exactly when the reflectance is outside 1..99, the number of samples outside 1..16 or
  the distance outside 600..3000.  Otherwise the calibration is handed to the driver
  with the three arguments, as the only driver call, and the operation halts afterwards
  exactly when the driver's status is not zero.
\<close>

theorem calibrateXtalk_range_checks:
  "((\<exists>v lo hi. calibrateXtalk drv r n d s =
        Halted ''%s must be between %d and %d'' [Str v, Num lo, Num hi] s) =
      (r < 1 \<or> 99 < r \<or> n < 1 \<or> 16 < n \<or> d < 600 \<or> 3000 < d)) \<and>
   (\<not> (r < 1 \<or> 99 < r \<or> n < 1 \<or> 16 < n \<or> d < 600 \<or> 3000 < d) \<longrightarrow>
      calls (final_state (calibrateXtalk drv r n d s)) = calls s @ [Call_calibrate_xtalk r n d] \<and>
      dev (final_state (calibrateXtalk drv r n d s)) =
        snd (vl53l5cx_calibrate_xtalk drv (dev s) r n d) \<and>
      is_halted (calibrateXtalk drv r n d s) =
        (fst (vl53l5cx_calibrate_xtalk drv (dev s) r n d) \<noteq> 0))"
proof (cases "r < 1 \<or> 99 < r \<or> n < 1 \<or> 16 < n \<or> d < 600 \<or> 3000 < d")
  case True
  with calibrateXtalk_invalid [OF True, of drv s] show ?thesis
    by simp
next
  case False
  obtain error dv where c: "vl53l5cx_calibrate_xtalk drv (dev s) r n d = (error, dv)"
    by (cases "vl53l5cx_calibrate_xtalk drv (dev s) r n d")
  have run: "calibrateXtalk drv r n d s =
      checkStatus error ''vl53l5cx_calibrate_xtalk failed, status %u''
        (s\<lparr>dev := dv, calls := calls s @ [Call_calibrate_xtalk r n d]\<rparr>)"
    using calibrateXtalk_valid [OF False, of drv s] c by simp
  have "calibrateXtalk drv r n d s \<noteq> Halted fmt args s" for fmt args
  proof
    assume "calibrateXtalk drv r n d s = Halted fmt args s"
    then have "calls (final_state (calibrateXtalk drv r n d s)) = calls s"
      by simp
    then show False
      using run by (simp add: checkStatus_def reportForever_def split: if_splits)
  qed
  then show ?thesis
    using False run c by (simp add: checkStatus_def reportForever_def)
qed

text \<open>
  The boundary values 1 and 99, 1 and 16, 600 and 3000 reach the driver; 0 and 100, 0 and
  17, 599 and 3001 halt in the range checks.
\<close>

theorem calibrateXtalk_range_checks_witness:
  "calls (final_state (calibrateXtalk sample_driver 1 16 3000 sample_object)) =
     [Call_calibrate_xtalk 1 16 3000] \<and>
   calls (final_state (calibrateXtalk sample_driver 99 1 600 sample_object)) =
     [Call_calibrate_xtalk 99 1 600] \<and>
   \<not> is_halted (calibrateXtalk sample_driver 1 16 3000 sample_object) \<and>
   \<not> is_halted (calibrateXtalk sample_driver 99 1 600 sample_object) \<and>
   (\<exists>v lo hi. calibrateXtalk sample_driver 0 1 600 sample_object =
      Halted ''%s must be between %d and %d'' [Str v, Num lo, Num hi] sample_object) \<and>
   (\<exists>v lo hi. calibrateXtalk sample_driver 100 1 600 sample_object =
      Halted ''%s must be between %d and %d'' [Str v, Num lo, Num hi] sample_object) \<and>
   (\<exists>v lo hi. calibrateXtalk sample_driver 1 0 600 sample_object =
      Halted ''%s must be between %d and %d'' [Str v, Num lo, Num hi] sample_object) \<and>
   (\<exists>v lo hi. calibrateXtalk sample_driver 1 17 600 sample_object =
      Halted ''%s must be between %d and %d'' [Str v, Num lo, Num hi] sample_object) \<and>
   (\<exists>v lo hi. calibrateXtalk sample_driver 1 1 599 sample_object =
      Halted ''%s must be between %d and %d'' [Str v, Num lo, Num hi] sample_object) \<and>
   (\<exists>v lo hi. calibrateXtalk sample_driver 1 1 3001 sample_object =
      Halted ''%s must be between %d and %d'' [Str v, Num lo, Num hi] sample_object)"
  using calibrateXtalk_range_checks
      [where drv = sample_driver and s = sample_object and r = 1 and n = 16 and d = 3000]
    calibrateXtalk_range_checks
      [where drv = sample_driver and s = sample_object and r = 99 and n = 1 and d = 600]
    calibrateXtalk_range_checks
      [where drv = sample_driver and s = sample_object and r = 0 and n = 1 and d = 600]
    calibrateXtalk_range_checks
      [where drv = sample_driver and s = sample_object and r = 100 and n = 1 and d = 600]
    calibrateXtalk_range_checks
      [where drv = sample_driver and s = sample_object and r = 1 and n = 0 and d = 600]
    calibrateXtalk_range_checks
      [where drv = sample_driver and s = sample_object and r = 1 and n = 17 and d = 600]
    calibrateXtalk_range_checks
      [where drv = sample_driver and s = sample_object and r = 1 and n = 1 and d = 599]
    calibrateXtalk_range_checks
      [where drv = sample_driver and s = sample_object and r = 1 and n = 1 and d = 3001]
  by (simp add: sample_driver_def sample_object_def)

subsection \<open>Polling\<close>

text \<open>
  Claim C6.  \<open>isReady\<close> asks the driver whether a frame is ready.  When the driver
  reports none, the result is false, the frame buffer is as it was, and the check is the
  only driver call.  When it reports one, \<open>isReady\<close> hands the whole frame buffer to
  the driver's \<open>vl53l5cx_get_ranging_data\<close> once and the result is true: the buffer
  afterwards is the frame that call left, with no field written by \<open>isReady\<close>
  itself.  What the frame holds is the driver's doing.
\<close>

theorem isReady_frame_buffer:
  "(case vl53l5cx_check_data_ready drv (dev s) of (status, is_ready, d) \<Rightarrow>
      if is_ready = 0
      then isReady drv s =
             Returned False (s\<lparr>dev := d, calls := calls s @ [Call_check_data_ready]\<rparr>) \<and>
           results (final_state (isReady drv s)) = results s
      else (case vl53l5cx_get_ranging_data drv d (results s) of (status', frame, d') \<Rightarrow>
              isReady drv s =
                Returned True
                  (s\<lparr>dev := d', results := frame,
                      calls := calls s @ [Call_check_data_ready, Call_get_ranging_data]\<rparr>) \<and>
              results (final_state (isReady drv s)) = frame))"
  by (simp add: isReady_def get_ranging_data_def op_defs split: prod.splits)

text \<open>Both paths: no frame ready, and one frame ready.\<close>

theorem isReady_frame_buffer_witness:
  "isReady sample_driver (pending 0) =
     Returned False ((pending 0)\<lparr>calls := [Call_check_data_ready]\<rparr>) \<and>
   results (final_state (isReady sample_driver (pending 0))) = blank_frame \<and>
   isReady sample_driver (pending 1) =
     Returned True
       (sample_object\<lparr>dev := \<lparr>platform_address = 0x29, streamcount = 1, uld_state = 0\<rparr>,
                      results := sample_frame,
                      calls := [Call_check_data_ready, Call_get_ranging_data]\<rparr>) \<and>
   results (final_state (isReady sample_driver (pending 1))) = sample_frame"
  using isReady_frame_buffer [where drv = sample_driver and s = "pending 0"]
    isReady_frame_buffer [where drv = sample_driver and s = "pending 1"]
  by (simp add: sample_driver_def sample_object_def pending_def)

subsection \<open>The autonomous startup\<close>

text \<open>
  Claim C7.  The autonomous \<^verbatim>\<open>begin\<close> runs \<open>init\<close> first, and halts as
  \<open>init\<close> does if that halts.  After an \<open>init\<close> that returns (its five external
  calls made, in order) it asks the driver for the autonomous ranging mode, on the
  device structure \<open>init\<close> left; on a non-zero status it halts there, with neither
  the integration time pushed nor ranging started.  Otherwise it hands the object's
  integration time to the driver, on the device structure the mode selection left, and
  whatever status that returns it then asks the driver to start ranging, on the device
  structure the push left: it halts on a non-zero status of the start and returns
  otherwise, in both cases with the device structure as the start left it and the three
  calls recorded in this order.
\<close>

theorem autonomous_begin_sequence:
  "(case init drv s of
      Halted fmt args s' \<Rightarrow> VL53L5cxAutonomous_begin drv s = Halted fmt args s'
    | Returned u s1 \<Rightarrow>
        calls s1 = calls s @
          [Call_Reset_Sensor (lpn_pin s), Call_is_alive, Call_init,
           Call_set_resolution (if resolution s = RESOLUTION_4X4
                                then VL53L5CX_RESOLUTION_4X4 else VL53L5CX_RESOLUTION_8X8),
           Call_set_target_order (if target_order s = TARGET_ORDER_STRONGEST
                                  then VL53L5CX_TARGET_ORDER_STRONGEST
                                  else VL53L5CX_TARGET_ORDER_CLOSEST)] \<and>
        (case vl53l5cx_set_ranging_mode drv (dev s1) VL53L5CX_RANGING_MODE_AUTONOMOUS of
           (error, d) \<Rightarrow>
             if error \<noteq> 0
             then VL53L5cxAutonomous_begin drv s =
                    Halted (''vl53l5cx_set_ranging_mode failed, status %u'' @ [CHR 0x0A])
                      [Num (uint error)]
                      (s1\<lparr>dev := d,
                           calls := calls s1 @
                             [Call_set_ranging_mode VL53L5CX_RANGING_MODE_AUTONOMOUS]\<rparr>)
             else
               (case vl53l5cx_set_integration_time_ms drv d (integration_time_msec s) of
                  (push_status, d2) \<Rightarrow>
                    (case vl53l5cx_start_ranging drv d2 of
                       (start_status, d3) \<Rightarrow>
                         VL53L5cxAutonomous_begin drv s =
                           (if start_status \<noteq> 0
                            then Halted ''start error = 0x%02X'' [Num (uint start_status)]
                            else Returned ())
                             (s1\<lparr>dev := d3,
                                  calls := calls s1 @
                                    [Call_set_ranging_mode VL53L5CX_RANGING_MODE_AUTONOMOUS,
                                     Call_set_integration_time_ms (integration_time_msec s),
                                     Call_start_ranging]\<rparr>)))))"
proof (cases "init drv s")
  case (Halted fmt args s')
  then show ?thesis
    by (simp add: VL53L5cxAutonomous_begin_def andThen_def)
next
  case (Returned u s1)
  let ?tr = "calls s @
          [Call_Reset_Sensor (lpn_pin s), Call_is_alive, Call_init,
           Call_set_resolution (if resolution s = RESOLUTION_4X4
                                then VL53L5CX_RESOLUTION_4X4 else VL53L5CX_RESOLUTION_8X8),
           Call_set_target_order (if target_order s = TARGET_ORDER_STRONGEST
                                  then VL53L5CX_TARGET_ORDER_STRONGEST
                                  else VL53L5CX_TARGET_ORDER_CLOSEST)]"
  have fr: "s1 = s\<lparr>dev := dev s1, calls := ?tr\<rparr>"
    by (rule init_frame [OF Returned])
  have tr: "calls s1 = ?tr"
    by (subst fr) simp
  have it: "integration_time_msec s1 = integration_time_msec s"
    by (subst fr) simp
  have run: "VL53L5cxAutonomous_begin drv s =
      (case vl53l5cx_set_ranging_mode drv (dev s1) VL53L5CX_RANGING_MODE_AUTONOMOUS of
         (error, d) \<Rightarrow>
           andThen (checkStatus error
                      (''vl53l5cx_set_ranging_mode failed, status %u'' @ [CHR 0x0A])) (\<lambda>_.
           andThen (\<lambda>s. dev_call (Call_set_integration_time_ms (integration_time_msec s))
                     (\<lambda>d. vl53l5cx_set_integration_time_ms drv d (integration_time_msec s)) s) (\<lambda>_.
           start_ranging drv))
           (s1\<lparr>dev := d,
                calls := calls s1 @ [Call_set_ranging_mode VL53L5CX_RANGING_MODE_AUTONOMOUS]\<rparr>))"
    using Returned
    by (simp add: VL53L5cxAutonomous_begin_def andThen_def dev_call_def split: prod.splits)
  show ?thesis
    unfolding Returned outcome.case
    apply (rule conjI [OF tr])
    apply (simp add: run it start_ranging_def op_defs split: prod.splits)
    done
qed

text \<open>
  Four runs on the tracking driver.  A run to the end: the driver has been asked for
  the autonomous mode, has been given the object's 10 ms, and has started ranging.  A
  run whose mode selection fails with status 7: no time pushed, ranging not started.  A
  run whose start fails with status 3: it halts after all three calls.  A run refused
  by the frequency check: nothing has happened.
\<close>

theorem autonomous_begin_sequence_witness:
  "VL53L5cxAutonomous_begin (tracking_driver 0 0) tracking_object =
     Returned ()
       (tracking_object
          \<lparr>dev := \<lparr>platform_address = 0x29, streamcount = 255,
                    uld_state = (Some VL53L5CX_RANGING_MODE_AUTONOMOUS, 10, True)\<rparr>,
           calls :=
             [Call_Reset_Sensor 14, Call_is_alive, Call_init,
              Call_set_resolution VL53L5CX_RESOLUTION_8X8,
              Call_set_target_order VL53L5CX_TARGET_ORDER_STRONGEST,
              Call_set_ranging_mode VL53L5CX_RANGING_MODE_AUTONOMOUS,
              Call_set_integration_time_ms 10,
              Call_start_ranging]\<rparr>) \<and>
   VL53L5cxAutonomous_begin (tracking_driver 7 0) tracking_object =
     Halted (''vl53l5cx_set_ranging_mode failed, status %u'' @ [CHR 0x0A]) [Num 7]
       (tracking_object
          \<lparr>dev := \<lparr>platform_address = 0x29, streamcount = 0,
                    uld_state = (Some VL53L5CX_RANGING_MODE_AUTONOMOUS, 5, False)\<rparr>,
           calls :=
             [Call_Reset_Sensor 14, Call_is_alive, Call_init,
              Call_set_resolution VL53L5CX_RESOLUTION_8X8,
              Call_set_target_order VL53L5CX_TARGET_ORDER_STRONGEST,
              Call_set_ranging_mode VL53L5CX_RANGING_MODE_AUTONOMOUS]\<rparr>) \<and>
   VL53L5cxAutonomous_begin (tracking_driver 0 3) tracking_object =
     Halted ''start error = 0x%02X'' [Num 3]
       (tracking_object
          \<lparr>dev := \<lparr>platform_address = 0x29, streamcount = 255,
                    uld_state = (Some VL53L5CX_RANGING_MODE_AUTONOMOUS, 10, True)\<rparr>,
           calls :=
             [Call_Reset_Sensor 14, Call_is_alive, Call_init,
              Call_set_resolution VL53L5CX_RESOLUTION_8X8,
              Call_set_target_order VL53L5CX_TARGET_ORDER_STRONGEST,
              Call_set_ranging_mode VL53L5CX_RANGING_MODE_AUTONOMOUS,
              Call_set_integration_time_ms 10,
              Call_start_ranging]\<rparr>) \<and>
   VL53L5cxAutonomous_begin (tracking_driver 0 0) (tracking_object\<lparr>ranging_frequency := 16\<rparr>) =
     Halted ''Ranging frequency for %s resolution must be at least 1 and no more than %d''
       [Num 15] (tracking_object\<lparr>ranging_frequency := 16\<rparr>)"
  using autonomous_begin_sequence [where drv = "tracking_driver 0 0" and s = tracking_object]
    autonomous_begin_sequence [where drv = "tracking_driver 7 0" and s = tracking_object]
    autonomous_begin_sequence [where drv = "tracking_driver 0 3" and s = tracking_object]
    autonomous_begin_sequence
      [where drv = "tracking_driver 0 0" and s = "tracking_object\<lparr>ranging_frequency := 16\<rparr>"]
  by (simp add: init_def op_defs tracking_driver_def tracking_object_def)

subsection \<open>Driver statuses that are not looked at\<close>

text \<open>
  Claim C8.  \<open>stop\<close> never halts, and its outcome does not depend on the status the
  driver returns from \<open>vl53l5cx_stop_ranging\<close>: with that status replaced by any
  byte \<open>e\<close> the outcome is the same.  Likewise the outcome of the autonomous
  \<^verbatim>\<open>begin\<close> does not depend on the status returned from
  \<open>vl53l5cx_set_integration_time_ms\<close>: it neither halts nor returns differently
  because of it.
\<close>

theorem unchecked_driver_statuses:
  "\<not> is_halted (stop drv s) \<and>
   stop (drv\<lparr>vl53l5cx_stop_ranging := \<lambda>d. (e, snd (vl53l5cx_stop_ranging drv d))\<rparr>) s =
     stop drv s \<and>
   VL53L5cxAutonomous_begin
     (drv\<lparr>vl53l5cx_set_integration_time_ms :=
            \<lambda>d t. (e, snd (vl53l5cx_set_integration_time_ms drv d t))\<rparr>) a =
     VL53L5cxAutonomous_begin drv a"
proof (intro conjI)
  show "\<not> is_halted (stop drv s)"
    by (simp add: stop_def op_defs split: prod.splits)
  show "stop (drv\<lparr>vl53l5cx_stop_ranging := \<lambda>d. (e, snd (vl53l5cx_stop_ranging drv d))\<rparr>) s =
      stop drv s"
    by (simp add: stop_def op_defs split: prod.splits)
  let ?drv' = "drv\<lparr>vl53l5cx_set_integration_time_ms :=
            \<lambda>d t. (e, snd (vl53l5cx_set_integration_time_ms drv d t))\<rparr>"
  have i: "init ?drv' = init drv"
    by (simp add: init_def)
  have st: "start_ranging ?drv' = start_ranging drv"
    by (simp add: start_ranging_def)
  show "VL53L5cxAutonomous_begin ?drv' a = VL53L5cxAutonomous_begin drv a"
    unfolding VL53L5cxAutonomous_begin_def i st
    by (simp add: andThen_def dev_call_def split: outcome.splits prod.splits)
qed

text \<open>
  With a driver that fails both calls with status 9: \<open>stop\<close> returns, and the
  startup runs on to the start of ranging.
\<close>

theorem unchecked_driver_statuses_witness:
  "\<not> is_halted (stop sample_driver sample_object) \<and>
   stop (sample_driver\<lparr>vl53l5cx_stop_ranging := \<lambda>d. (9, d)\<rparr>) sample_object =
     Returned () (sample_object\<lparr>calls := [Call_stop_ranging]\<rparr>) \<and>
   VL53L5cxAutonomous_begin
       (sample_driver\<lparr>vl53l5cx_set_integration_time_ms := \<lambda>d t. (9, d)\<rparr>) sample_object =
     Returned ()
       (sample_object\<lparr>calls :=
          [Call_Reset_Sensor 14, Call_is_alive, Call_init,
           Call_set_resolution VL53L5CX_RESOLUTION_4X4,
           Call_set_target_order VL53L5CX_TARGET_ORDER_CLOSEST,
           Call_set_ranging_mode VL53L5CX_RANGING_MODE_AUTONOMOUS,
           Call_set_integration_time_ms 10,
           Call_start_ranging]\<rparr>)"
proof -
  have d: "(\<lambda>d. (9, snd (vl53l5cx_stop_ranging sample_driver d))) = (\<lambda>d. (9, d))"
    "(\<lambda>d t. (9, snd (vl53l5cx_set_integration_time_ms sample_driver d t))) = (\<lambda>d t. (9, d))"
    by (simp_all add: sample_driver_def)
  have r: "stop sample_driver sample_object =
      Returned () (sample_object\<lparr>calls := [Call_stop_ranging]\<rparr>)"
    "VL53L5cxAutonomous_begin sample_driver sample_object =
     Returned ()
       (sample_object\<lparr>calls :=
          [Call_Reset_Sensor 14, Call_is_alive, Call_init,
           Call_set_resolution VL53L5CX_RESOLUTION_4X4,
           Call_set_target_order VL53L5CX_TARGET_ORDER_CLOSEST,
           Call_set_ranging_mode VL53L5CX_RANGING_MODE_AUTONOMOUS,
           Call_set_integration_time_ms 10,
           Call_start_ranging]\<rparr>)"
    by (simp_all add: stop_def VL53L5cxAutonomous_begin_def init_def start_ranging_def op_defs
        sample_driver_def sample_object_def)
  show ?thesis
    using unchecked_driver_statuses
      [where drv = sample_driver and s = sample_object and a = sample_object and e = 9]
    unfolding d r by simp
qed

subsection \<open>The calibration-data setter\<close>

text \<open>
  Claim C9.  \<open>setXtalkCalibrationData\<close> does nothing: for every driver, buffer and
  object it returns with the buffer and the object as they were, so with no call
  recorded and the device structure untouched.
\<close>

theorem setXtalkCalibrationData_does_nothing:
  "setXtalkCalibrationData drv data s = Returned data s \<and>
   calls (final_state (setXtalkCalibrationData drv data s)) = calls s \<and>
   dev (final_state (setXtalkCalibrationData drv data s)) = dev s"
  by (simp add: setXtalkCalibrationData_def)

subsection \<open>What the accessors read\<close>

text \<open>
  Claim C10 says that every accessor, \<^verbatim>\<open>getStreamCount\<close> included, is a function
  of the frame buffer alone, untouched by what happens to the device state outside a
  successful poll.  \<^verbatim>\<open>getStreamCount\<close> reads the device structure instead.
  After the first and after the second of two polls that delivered the same frame, the
  buffers are equal and the stream counts differ; and with a driver that resets the
  stream count when ranging starts, \<open>start_ranging\<close> changes what
  \<open>getStreamCount\<close> returns and leaves the buffer as it was.
\<close>

theorem getStreamCount_not_from_frame:
  "results first_poll = results second_poll \<and>
   getStreamCount first_poll \<noteq> getStreamCount second_poll \<and>
   results (final_state
       (start_ranging
          (sample_driver\<lparr>vl53l5cx_start_ranging := \<lambda>d. (0, d\<lparr>streamcount := 255\<rparr>)\<rparr>)
          first_poll)) = results first_poll \<and>
   getStreamCount (final_state
       (start_ranging
          (sample_driver\<lparr>vl53l5cx_start_ranging := \<lambda>d. (0, d\<lparr>streamcount := 255\<rparr>)\<rparr>)
          first_poll)) \<noteq> getStreamCount first_poll"
  by (simp add: first_poll_def second_poll_def getStreamCount_def isReady_def
      get_ranging_data_def start_ranging_def op_defs sample_driver_def sample_object_def
      pending_def)

text \<open>
  Claim C10, amended.  The accessors are functions of the object that make no external
  call.  The seven accessors of the frame depend on the frame buffer alone: on two
  objects with equal buffers they agree.  \<open>getStreamCount\<close> is the stream count of the
  device structure, which the driver may change in any call that is given the
  structure, for one in \<open>stop\<close>.
\<close>

theorem accessors_read_only:
  "(results s = results s' \<longrightarrow>
      getTargetStatus nb s zone target = getTargetStatus nb s' zone target \<and>
      getDistance nb s zone target = getDistance nb s' zone target \<and>
      getSignalPerSpad nb s zone target = getSignalPerSpad nb s' zone target \<and>
      getRangeSigma nb s zone target = getRangeSigma nb s' zone target \<and>
      getNbTargetDetected s zone = getNbTargetDetected s' zone \<and>
      getAmbientPerSpad s zone = getAmbientPerSpad s' zone \<and>
      getNbSpadsEnabled s zone = getNbSpadsEnabled s' zone) \<and>
   getStreamCount s = streamcount (dev s) \<and>
   getStreamCount (final_state (stop drv s)) = streamcount (snd (vl53l5cx_stop_ranging drv (dev s))) \<and>
   results (final_state (stop drv s)) = results s"
  by (simp add: getTargetStatus_def getDistance_def getSignalPerSpad_def getRangeSigma_def
      getNbTargetDetected_def getAmbientPerSpad_def getNbSpadsEnabled_def getStreamCount_def
      stop_def op_defs split: prod.splits)

text \<open>
  Two objects with the same frame, the second with another call record and stream
  count: the frame accessors agree, and the stream count read is the device's.
\<close>

theorem accessors_read_only_witness:
  "getTargetStatus 1 (sample_object\<lparr>results := sample_frame\<rparr>) 3 0 = Some 5 \<and>
   getTargetStatus 1
     (sample_object\<lparr>results := sample_frame, calls := [Call_stop_ranging],
                    dev := (dev sample_object)\<lparr>streamcount := 9\<rparr>\<rparr>) 3 0 = Some 5 \<and>
   getStreamCount
     (sample_object\<lparr>results := sample_frame, calls := [Call_stop_ranging],
                    dev := (dev sample_object)\<lparr>streamcount := 9\<rparr>\<rparr>) = 9"
  using accessors_read_only
    [where s' = "sample_object\<lparr>results := sample_frame\<rparr>"
      and s = "sample_object\<lparr>results := sample_frame, calls := [Call_stop_ranging],
                    dev := (dev sample_object)\<lparr>streamcount := 9\<rparr>\<rparr>"
      and nb = 1 and zone = 3 and target = 0 and drv = sample_driver]
  by (simp add: getTargetStatus_def read_u8_def sample_frame_def sample_object_def)

end
